theory Spec2Isabelle
  imports Complex_Main "HOL-Library.Word"
begin

section \<open>Floating-point values of the sketches\<close>

text \<open>
  The sketches compute with C \<open>double\<close> and \<open>float\<close>. The model keeps the special values of
  IEEE-754 arithmetic (the two infinities and NaN), because the thermistor formula divides by
  the measured voltage without a guard, and idealises rounding: a finite result is the exact
  real number. The sign of a zero is not tracked; a zero divisor is taken as \<open>+0.0\<close>, which is
  the zero that an ADC sample of 0 produces.
\<close>

datatype ieee = Fin real | PInf | NInf | NaN

fun fadd :: "ieee \<Rightarrow> ieee \<Rightarrow> ieee" where
  "fadd NaN y = NaN"
| "fadd x NaN = NaN"
| "fadd (Fin a) (Fin b) = Fin (a + b)"
| "fadd PInf NInf = NaN"
| "fadd NInf PInf = NaN"
| "fadd PInf y = PInf"
| "fadd NInf y = NInf"
| "fadd (Fin a) y = y"

fun fneg :: "ieee \<Rightarrow> ieee" where
  "fneg (Fin a) = Fin (- a)"
| "fneg PInf = NInf"
| "fneg NInf = PInf"
| "fneg NaN = NaN"

definition fsub :: "ieee \<Rightarrow> ieee \<Rightarrow> ieee" where
  "fsub x y = fadd x (fneg y)"

text \<open>An infinity of the sign of \<open>a\<close> times the sign of \<open>b\<close>, for non-zero \<open>a\<close> and \<open>b\<close>.\<close>

definition signed_inf :: "real \<Rightarrow> real \<Rightarrow> ieee" where
  "signed_inf a b = (if (0 < a) = (0 < b) then PInf else NInf)"

fun fmul :: "ieee \<Rightarrow> ieee \<Rightarrow> ieee" where
  "fmul NaN y = NaN"
| "fmul x NaN = NaN"
| "fmul (Fin a) (Fin b) = Fin (a * b)"
| "fmul (Fin a) PInf = (if a = 0 then NaN else signed_inf a 1)"
| "fmul (Fin a) NInf = (if a = 0 then NaN else signed_inf a (- 1))"
| "fmul PInf (Fin b) = (if b = 0 then NaN else signed_inf 1 b)"
| "fmul NInf (Fin b) = (if b = 0 then NaN else signed_inf (- 1) b)"
| "fmul PInf PInf = PInf"
| "fmul NInf NInf = PInf"
| "fmul PInf NInf = NInf"
| "fmul NInf PInf = NInf"

fun fdiv :: "ieee \<Rightarrow> ieee \<Rightarrow> ieee" where
  "fdiv NaN y = NaN"
| "fdiv x NaN = NaN"
| "fdiv (Fin a) (Fin b) =
     (if b = 0 then (if a = 0 then NaN else signed_inf a 1) else Fin (a / b))"
| "fdiv (Fin a) y = Fin 0"
| "fdiv PInf (Fin b) = (if b = 0 then PInf else signed_inf 1 b)"
| "fdiv NInf (Fin b) = (if b = 0 then NInf else signed_inf (- 1) b)"
| "fdiv x y = NaN"

text \<open>The functions of \<open>math.h\<close> the sketches call, with the special cases of C99 Annex F.\<close>

fun exp_d :: "ieee \<Rightarrow> ieee" where
  "exp_d (Fin a) = Fin (exp a)"
| "exp_d PInf = PInf"
| "exp_d NInf = Fin 0"
| "exp_d NaN = NaN"

fun log_d :: "ieee \<Rightarrow> ieee" where
  "log_d (Fin a) = (if a < 0 then NaN else if a = 0 then NInf else Fin (ln a))"
| "log_d PInf = PInf"
| "log_d NInf = NaN"
| "log_d NaN = NaN"

definition odd_integer :: "real \<Rightarrow> bool" where
  "odd_integer b \<longleftrightarrow> b \<in> \<int> \<and> odd \<lfloor>b\<rfloor>"

fun pow :: "ieee \<Rightarrow> ieee \<Rightarrow> ieee" where
  "pow x (Fin b) =
     (if b = 0 then Fin 1
      else case x of
        NaN \<Rightarrow> NaN
      | PInf \<Rightarrow> (if b < 0 then Fin 0 else PInf)
      | NInf \<Rightarrow> (if b < 0 then Fin 0 else if odd_integer b then NInf else PInf)
      | Fin a \<Rightarrow>
          (if a = 0 then (if b < 0 then PInf else Fin 0)
           else if 0 < a then Fin (a powr b)
           else if b \<notin> \<int> then NaN
           else if odd_integer b then Fin (- ((- a) powr b))
           else Fin ((- a) powr b)))"
| "pow x NaN = (if x = Fin 1 then Fin 1 else NaN)"
| "pow x PInf =
     (case x of
        NaN \<Rightarrow> NaN
      | Fin a \<Rightarrow> (if \<bar>a\<bar> < 1 then Fin 0 else if \<bar>a\<bar> = 1 then Fin 1 else PInf)
      | _ \<Rightarrow> PInf)"
| "pow x NInf =
     (case x of
        NaN \<Rightarrow> NaN
      | Fin a \<Rightarrow> (if \<bar>a\<bar> < 1 then PInf else if \<bar>a\<bar> = 1 then Fin 1 else Fin 0)
      | _ \<Rightarrow> Fin 0)"

section \<open>The thermistor conversion\<close>

text \<open>
  Lines 45 to 48 of the command sketch (and 34 to 37 of the continuous sketch with a
  thermistor), one definition for each assignment. \<open>analogRead\<close> returns an \<open>int\<close>, which C
  converts to \<open>double\<close> before the multiplication.
\<close>

definition Vout_of :: "int \<Rightarrow> ieee" where
  "Vout_of sample = fdiv (fmul (Fin (of_int sample)) (Fin 5.0)) (Fin 1024.0)"

definition R1_of :: "ieee \<Rightarrow> ieee" where
  "R1_of vout = fsub (fdiv (fmul (Fin 5.0) (Fin 4.7)) vout) (Fin 4.7)"

definition B_of :: "ieee \<Rightarrow> ieee" where
  "B_of r1 = fmul (Fin 3452.9) (pow r1 (Fin (- 0.012329)))"

definition T_of :: "ieee \<Rightarrow> ieee \<Rightarrow> ieee" where
  "T_of r1 b =
     fsub (fdiv b (log_d (fdiv (fmul r1 (exp_d (fdiv b (fadd (Fin 25) (Fin 273.15)))))
                                (Fin 10))))
          (Fin 273.15)"

section \<open>The world outside the sketches\<close>

type_synonym byte = "8 word"

type_synonym vec3 = "ieee \<times> ieee \<times> ieee"

text \<open>
  Every data transaction of a sketch with its collaborators is recorded in a trace, in the
  order of the calls: the serial port (\<open>Serial.read\<close>, \<open>Serial.print\<close>, \<open>Serial.println\<close>),
  the accelerometer driver (\<open>kx224.init\<close>, \<open>kx224.get_val\<close>) and the ADC (\<open>analogRead\<close>).
  The configuration calls (\<open>Serial.begin\<close>, \<open>pinMode\<close>, \<open>Wire.begin\<close>, \<open>Serial.flush\<close>) carry no
  data and are not recorded.
\<close>

datatype event =
    Serial_read
  | Kx_init
  | Kx_get_val
  | Analog_read nat
  | Serial_print string
  | Serial_println string

text \<open>
  What the collaborators do during one pass of \<open>loop\<close>: the bytes that the port has received
  since the previous pass, the status code of the driver's \<open>get_val\<close> with the sample it
  measured, and the ADC samples of the pins 0 and 1.
\<close>

record cycle =
  arriving :: "byte list"
  kx_rc :: byte
  kx_sample :: vec3
  adc0 :: int
  adc1 :: int

text \<open>
  The Arduino core renders a number with \<open>String(float)\<close> and \<open>String(double)\<close>. The core is
  not part of the repository; the two conversions are parameters of the model.
\<close>

record platform =
  String_float :: "ieee \<Rightarrow> string"
  String_double :: "ieee \<Rightarrow> string"

text \<open>
  Modelled from the spec: the driver's \<open>get_val\<close> (library \<open>KX224_I2C\<close>, not among the
  sources). A non-zero status code is a failure, and a failed transaction leaves the caller's
  array as it was; a successful one writes the three components.
\<close>

definition get_val :: "cycle \<Rightarrow> vec3 \<Rightarrow> byte \<times> vec3" where
  "get_val c arr = (if kx_rc c \<noteq> 0 then (kx_rc c, arr) else (0, kx_sample c))"

text \<open>
  Modelled from the spec: the non-blocking \<open>Serial.read\<close> of the Arduino core. It takes the
  oldest pending byte out of the receive buffer and returns it as an \<open>int\<close> in 0..255, or
  returns -1 at once when nothing is pending.
\<close>

definition Serial_read_int :: "byte list \<Rightarrow> int \<times> byte list" where
  "Serial_read_int buf = (case buf of [] \<Rightarrow> (- 1, []) | b # bs \<Rightarrow> (uint b, bs))"

text \<open>The bytes that a serial event puts on the wire; \<open>println\<close> appends CR LF.\<close>

definition line_terminator :: string where
  "line_terminator = [CHR 0x0D, CHR 0x0A]"

fun wire :: "event \<Rightarrow> string" where
  "wire (Serial_print s) = s"
| "wire (Serial_println s) = s @ line_terminator"
| "wire e = []"

definition wire_bytes :: "event list \<Rightarrow> string" where
  "wire_bytes es = concat (map wire es)"

fun is_line :: "event \<Rightarrow> bool" where
  "is_line (Serial_println s) = True"
| "is_line e = False"

fun is_output :: "event \<Rightarrow> bool" where
  "is_output (Serial_println s) = True"
| "is_output (Serial_print s) = True"
| "is_output e = False"

section \<open>The sketches\<close>

text \<open>
  The globals of the three sketches. The continuous sketch without a thermistor has the first
  three, the continuous sketch with one thermistor adds the next four, and the command sketch
  adds the second channel, the command byte and, in the model, the receive buffer of the port.
\<close>

record accel_sketch =
  accelerometer_value :: vec3
  send_data :: string
  trace :: "event list"

record thermo_sketch = accel_sketch +
  Vout :: ieee
  R1 :: ieee
  B :: ieee
  T :: ieee

record command_sketch = thermo_sketch +
  Vout_2 :: ieee
  R1_2 :: ieee
  B_2 :: ieee
  T_2 :: ieee
  read_data :: byte
  rx :: "byte list"

definition init_failed_message :: string where
  "init_failed_message = ''KX224 initialization failed''"

text \<open>
  \<open>setup\<close> is the same in the three sketches: it initialises the driver and, when the status
  code is not 0, prints one diagnostic line. It returns in both cases.
\<close>

definition setup_sketch :: "byte \<Rightarrow> 'a accel_sketch_scheme \<Rightarrow> 'a accel_sketch_scheme" where
  "setup_sketch rc s =
     (let s1 = s\<lparr>trace := trace s @ [Kx_init]\<rparr>
      in if rc \<noteq> 0
         then s1\<lparr>trace := trace s1 @ [Serial_println init_failed_message]\<rparr>
         else s1)"

text \<open>The JSON text that the continuous sketches build in \<open>send_data\<close>.\<close>

definition json_text :: "platform \<Rightarrow> vec3 \<Rightarrow> string" where
  "json_text P v =
     (case v of (x, y, z) \<Rightarrow>
        ''{'' @ [CHR 0x22] @ ''x'' @ [CHR 0x22] @ '':'' @ String_float P x
        @ '','' @ [CHR 0x22] @ ''y'' @ [CHR 0x22] @ '':'' @ String_float P y
        @ '','' @ [CHR 0x22] @ ''z'' @ [CHR 0x22] @ '':'' @ String_float P z
        @ ''}'')"

text \<open>The comma-separated text that the command sketch builds for the command 5.\<close>

definition csv_text :: "platform \<Rightarrow> vec3 \<Rightarrow> string" where
  "csv_text P v =
     (case v of (x, y, z) \<Rightarrow>
        String_float P x @ '','' @ String_float P y @ '','' @ String_float P z)"

text \<open>\<open>loop\<close> of the continuous sketch without a thermistor (source file part 000).\<close>

definition loop_part_000 :: "platform \<Rightarrow> cycle \<Rightarrow> accel_sketch \<Rightarrow> accel_sketch" where
  "loop_part_000 P c s =
     (let s1 = s\<lparr>accelerometer_value := snd (get_val c (accelerometer_value s)),
                 trace := trace s @ [Kx_get_val]\<rparr>;
          s2 = s1\<lparr>send_data := json_text P (accelerometer_value s1)\<rparr>
      in s2\<lparr>trace := trace s2 @ [Serial_println (send_data s2)]\<rparr>)"

text \<open>
  \<open>loop\<close> of the continuous sketch with one thermistor (source file part 001). Its last
  statement is \<open>Serial.print\<close>.
\<close>

definition loop_part_001 :: "platform \<Rightarrow> cycle \<Rightarrow> thermo_sketch \<Rightarrow> thermo_sketch" where
  "loop_part_001 P c s =
     (let s1 = s\<lparr>accelerometer_value := snd (get_val c (accelerometer_value s)),
                 trace := trace s @ [Kx_get_val]\<rparr>;
          s2 = s1\<lparr>Vout := Vout_of (adc0 c), trace := trace s1 @ [Analog_read 0]\<rparr>;
          s3 = s2\<lparr>R1 := R1_of (Vout s2)\<rparr>;
          s4 = s3\<lparr>B := B_of (R1 s3)\<rparr>;
          s5 = s4\<lparr>T := T_of (R1 s4) (B s4)\<rparr>;
          s6 = s5\<lparr>send_data := json_text P (accelerometer_value s5)\<rparr>
      in s6\<lparr>trace := trace s6 @ [Serial_print (send_data s6)]\<rparr>)"

text \<open>
  \<open>loop\<close> of the command sketch, in the two parts of its body. Lines 41 to 53 read the port,
  poll the accelerometer and convert both thermistor channels, whatever the byte is.
\<close>

definition acquire :: "cycle \<Rightarrow> command_sketch \<Rightarrow> command_sketch" where
  "acquire c s =
     (let s0 = s\<lparr>read_data := word_of_int (fst (Serial_read_int (rx s @ arriving c))),
                 rx := snd (Serial_read_int (rx s @ arriving c)),
                 trace := trace s @ [Serial_read]\<rparr>;
          s1 = s0\<lparr>accelerometer_value := snd (get_val c (accelerometer_value s0)),
                  trace := trace s0 @ [Kx_get_val]\<rparr>;
          s2 = s1\<lparr>Vout := Vout_of (adc0 c), trace := trace s1 @ [Analog_read 0]\<rparr>;
          s3 = s2\<lparr>R1 := R1_of (Vout s2)\<rparr>;
          s4 = s3\<lparr>B := B_of (R1 s3)\<rparr>;
          s5 = s4\<lparr>T := T_of (R1 s4) (B s4)\<rparr>;
          s6 = s5\<lparr>Vout_2 := Vout_of (adc1 c), trace := trace s5 @ [Analog_read 1]\<rparr>;
          s7 = s6\<lparr>R1_2 := R1_of (Vout_2 s6)\<rparr>;
          s8 = s7\<lparr>B_2 := B_of (R1_2 s7)\<rparr>
      in s8\<lparr>T_2 := T_of (R1_2 s8) (B_2 s8)\<rparr>)"

text \<open>Lines 64 to 82 compare the byte with the three commands, in this order.\<close>

definition dispatch :: "platform \<Rightarrow> command_sketch \<Rightarrow> command_sketch" where
  "dispatch P s =
     (if read_data s = 0x31 then
        (let s1 = s\<lparr>send_data := String_double P (T s)\<rparr>
         in s1\<lparr>trace := trace s1 @ [Serial_println (send_data s1)]\<rparr>)
      else if read_data s = 0x32 then
        (let s1 = s\<lparr>send_data := String_double P (T_2 s)\<rparr>
         in s1\<lparr>trace := trace s1 @ [Serial_println (send_data s1)]\<rparr>)
      else if read_data s = 0x35 then
        (let s1 = s\<lparr>send_data := csv_text P (accelerometer_value s)\<rparr>
         in s1\<lparr>trace := trace s1 @ [Serial_println (send_data s1)]\<rparr>)
      else s)"

definition loop :: "platform \<Rightarrow> cycle \<Rightarrow> command_sketch \<Rightarrow> command_sketch" where
  "loop P c s = dispatch P (acquire c s)"

text \<open>The Arduino runtime calls \<open>loop\<close> again and again; one element of the list for each pass.\<close>

fun run :: "platform \<Rightarrow> cycle list \<Rightarrow> command_sketch \<Rightarrow> command_sketch" where
  "run P [] s = s"
| "run P (c # cs) s = run P cs (loop P c s)"

text \<open>What one pass of \<open>loop\<close> adds to the trace.\<close>

definition cycle_events :: "platform \<Rightarrow> cycle \<Rightarrow> command_sketch \<Rightarrow> event list" where
  "cycle_events P c s = drop (length (trace s)) (trace (loop P c s))"

text \<open>The globals as the C++ runtime initialises them, with the bytes pending on the port.\<close>

definition power_on :: "byte list \<Rightarrow> command_sketch" where
  "power_on pending =
     \<lparr>accelerometer_value = (Fin 0, Fin 0, Fin 0), send_data = [], trace = [],
      Vout = Fin 0, R1 = Fin 0, B = Fin 0, T = Fin 0,
      Vout_2 = Fin 0, R1_2 = Fin 0, B_2 = Fin 0, T_2 = Fin 0,
      read_data = 0, rx = pending\<rparr>"

section \<open>The conversion of the specification\<close>

record ThermistorChannel =
  seriesResistanceOhms :: ieee
  supplyVoltage :: ieee
  bCoefficient :: ieee
  referenceTemperatureKelvin :: ieee
  divisorConstant :: ieee

text \<open>The four steps of section 4.1 of the specification, in its words.\<close>

definition spec_convert :: "int \<Rightarrow> ThermistorChannel \<Rightarrow> ieee" where
  "spec_convert rawSample channel =
     (let outputVoltage = fdiv (fmul (Fin (of_int rawSample)) (supplyVoltage channel)) (Fin 1024);
          resistance = fsub (fdiv (fmul (supplyVoltage channel) (seriesResistanceOhms channel))
                                  outputVoltage)
                            (seriesResistanceOhms channel);
          bEffective = fmul (bCoefficient channel) (pow resistance (Fin (- 0.012329)))
      in fsub (fdiv bEffective
                 (log_d (fdiv (fmul resistance
                                 (exp_d (fdiv bEffective (referenceTemperatureKelvin channel))))
                              (divisorConstant channel))))
              (Fin 273.15))"

definition channel_4k7 :: ThermistorChannel where
  "channel_4k7 =
     \<lparr>seriesResistanceOhms = Fin 4.7, supplyVoltage = Fin 5.0, bCoefficient = Fin 3452.9,
      referenceTemperatureKelvin = Fin 298.15, divisorConstant = Fin 10\<rparr>"

section \<open>Derived notions\<close>

text \<open>The value that lines 45 to 48 leave in \<open>T\<close> for an ADC sample.\<close>

definition convert :: "int \<Rightarrow> ieee" where
  "convert sample = T_of (R1_of (Vout_of sample)) (B_of (R1_of (Vout_of sample)))"

text \<open>What a sequence of passes adds to the trace.\<close>

fun run_events :: "platform \<Rightarrow> cycle list \<Rightarrow> command_sketch \<Rightarrow> event list" where
  "run_events P [] s = []"
| "run_events P (c # cs) s = cycle_events P c s @ run_events P cs (loop P c s)"

text \<open>Two passes see the same bytes and the same ADC samples; the accelerometer may differ.\<close>

definition same_inputs :: "cycle \<Rightarrow> cycle \<Rightarrow> bool" where
  "same_inputs c c' \<longleftrightarrow> arriving c = arriving c' \<and> adc0 c = adc0 c' \<and> adc1 c = adc1 c'"

text \<open>The number of passes of \<open>loop\<close> a state has been through: each pass reads the port once.\<close>

definition passes :: "command_sketch \<Rightarrow> nat" where
  "passes s = length (filter (\<lambda>e. e = Serial_read) (trace s))"

text \<open>A pass with nothing on the port, a successful poll and mid-scale samples on both pins.\<close>

definition idle_cycle :: cycle where
  "idle_cycle =
     \<lparr>arriving = [], kx_rc = 0, kx_sample = (Fin 1, Fin 2, Fin 3), adc0 = 512, adc1 = 512\<rparr>"

text \<open>A pass in which the driver reports a failed transaction.\<close>

definition failed_cycle :: cycle where
  "failed_cycle =
     \<lparr>arriving = [], kx_rc = 2, kx_sample = (Fin 0, Fin 0, Fin 0), adc0 = 512, adc1 = 512\<rparr>"

section \<open>Properties\<close>

lemma T_of_spec_convert:
  "T_of (R1_of (Vout_of r)) (B_of (R1_of (Vout_of r))) = spec_convert r channel_4k7"
  by (simp add: T_of_def R1_of_def Vout_of_def B_of_def spec_convert_def channel_4k7_def Let_def)

subsection \<open>One pass of the command sketch\<close>

lemma trace_acquire:
  "trace (acquire c s) = trace s @ [Serial_read, Kx_get_val, Analog_read 0, Analog_read 1]"
  by (simp add: acquire_def Let_def)

lemma read_data_acquire:
  "read_data (acquire c s) = word_of_int (fst (Serial_read_int (rx s @ arriving c)))"
  by (simp add: acquire_def Let_def)

lemma rx_acquire: "rx (acquire c s) = tl (rx s @ arriving c)"
  by (simp add: acquire_def Let_def Serial_read_int_def split: list.split)

lemma accel_acquire:
  "accelerometer_value (acquire c s) = snd (get_val c (accelerometer_value s))"
  by (simp add: acquire_def Let_def)

lemma T_acquire: "T (acquire c s) = convert (adc0 c)"
  by (simp add: acquire_def Let_def convert_def)

lemma T_2_acquire: "T_2 (acquire c s) = convert (adc1 c)"
  by (simp add: acquire_def Let_def convert_def)

lemma send_data_acquire: "send_data (acquire c s) = send_data s"
  by (simp add: acquire_def Let_def)

lemma acquire_state:
  "acquire c s =
     s\<lparr>read_data := read_data (acquire c s),
       rx := tl (rx s @ arriving c),
       accelerometer_value := (if kx_rc c = 0 then kx_sample c else accelerometer_value s),
       Vout := Vout_of (adc0 c), R1 := R1_of (Vout_of (adc0 c)),
       B := B_of (R1_of (Vout_of (adc0 c))), T := convert (adc0 c),
       Vout_2 := Vout_of (adc1 c), R1_2 := R1_of (Vout_of (adc1 c)),
       B_2 := B_of (R1_of (Vout_of (adc1 c))), T_2 := convert (adc1 c),
       trace := trace s @ [Serial_read, Kx_get_val, Analog_read 0, Analog_read 1]\<rparr>"
  by (simp add: acquire_def Let_def get_val_def convert_def Serial_read_int_def
      split: list.split)

lemma dispatch_fields:
  "read_data (dispatch P s) = read_data s"
  "rx (dispatch P s) = rx s"
  "accelerometer_value (dispatch P s) = accelerometer_value s"
  "T (dispatch P s) = T s"
  "T_2 (dispatch P s) = T_2 s"
  by (simp_all add: dispatch_def Let_def)

lemma trace_dispatch:
  "trace (dispatch P s) = trace s @
     (if read_data s = 0x31 then [Serial_println (String_double P (T s))]
      else if read_data s = 0x32 then [Serial_println (String_double P (T_2 s))]
      else if read_data s = 0x35 then [Serial_println (csv_text P (accelerometer_value s))]
      else [])"
  by (simp add: dispatch_def Let_def)

lemma cycle_events_eq:
  "cycle_events P c s =
     [Serial_read, Kx_get_val, Analog_read 0, Analog_read 1] @
     (if read_data (acquire c s) = 0x31 then [Serial_println (String_double P (convert (adc0 c)))]
      else if read_data (acquire c s) = 0x32 then [Serial_println (String_double P (convert (adc1 c)))]
      else if read_data (acquire c s) = 0x35
        then [Serial_println (csv_text P (snd (get_val c (accelerometer_value s))))]
      else [])"
  by (simp add: cycle_events_def loop_def trace_dispatch trace_acquire T_acquire T_2_acquire
      accel_acquire)

lemma trace_loop: "trace (loop P c s) = trace s @ cycle_events P c s"
  by (simp add: cycle_events_def loop_def trace_dispatch trace_acquire)

lemma trace_run: "trace (run P cs s) = trace s @ run_events P cs s"
  by (induction cs arbitrary: s) (simp_all add: trace_loop)

lemma run_append: "run P (xs @ ys) s = run P ys (run P xs s)"
  by (induction xs arbitrary: s) simp_all

lemma loop_fields:
  "read_data (loop P c s) = read_data (acquire c s)"
  "rx (loop P c s) = tl (rx s @ arriving c)"
  "accelerometer_value (loop P c s) = snd (get_val c (accelerometer_value s))"
  "T (loop P c s) = convert (adc0 c)"
  "T_2 (loop P c s) = convert (adc1 c)"
  by (simp_all add: loop_def dispatch_fields rx_acquire accel_acquire T_acquire T_2_acquire)

lemma read_data_pending:
  "rx s @ arriving c = b # bs \<Longrightarrow> read_data (acquire c s) = b"
  by (simp add: read_data_acquire Serial_read_int_def)

lemma read_data_no_data:
  "rx s @ arriving c = [] \<Longrightarrow> read_data (acquire c s) = 0xFF"
  by (simp add: read_data_acquire Serial_read_int_def)

lemma accel_failed_polls:
  "\<forall>c\<in>set cs. kx_rc c \<noteq> 0 \<Longrightarrow> accelerometer_value (run P cs s) = accelerometer_value s"
  by (induction cs arbitrary: s) (simp_all add: loop_fields get_val_def)

lemma rx_run:
  "length cs \<le> length (rx s) \<Longrightarrow>
   rx (run P cs s) = drop (length cs) (rx s) @ concat (map arriving cs)"
proof (induction cs arbitrary: s)
  case Nil
  show ?case by simp
next
  case (Cons c cs)
  then obtain b bs where bs: "rx s = b # bs" by (cases "rx s") auto
  with Cons.prems have "length cs \<le> length (rx (loop P c s))"
    by (simp add: loop_fields)
  from Cons.IH [OF this] bs Cons.prems show ?case
    by (simp add: loop_fields)
qed

lemma passes_run: "passes (run P cs s) = passes s + length cs"
  by (induction cs arbitrary: s) (simp_all add: passes_def trace_loop cycle_events_eq)

lemma outputs_without_5:
  "list_all2 same_inputs cs cs' \<Longrightarrow> rx s = rx s' \<Longrightarrow>
   0x35 \<notin> set (rx s @ concat (map arriving cs)) \<Longrightarrow>
   filter is_output (run_events P cs s) = filter is_output (run_events P cs' s')"
proof (induction cs cs' arbitrary: s s' rule: list_all2_induct)
  case Nil
  show ?case by simp
next
  case (Cons c cs c' cs')
  from Cons.hyps(1) Cons.prems(1) have buf: "rx s' @ arriving c' = rx s @ arriving c"
    by (simp add: same_inputs_def)
  then have rd: "read_data (acquire c' s') = read_data (acquire c s)"
    by (simp add: read_data_acquire)
  have no5: "read_data (acquire c s) \<noteq> 0x35"
  proof (cases "rx s @ arriving c")
    case Nil
    then show ?thesis by (simp add: read_data_no_data)
  next
    case (Cons b bs)
    with Cons.prems(2) have "b \<noteq> 0x35" by (cases "rx s") auto
    with Cons show ?thesis by (simp add: read_data_pending)
  qed
  have step: "filter is_output (cycle_events P c s) = filter is_output (cycle_events P c' s')"
    using rd no5 Cons.hyps(1) by (simp add: cycle_events_eq same_inputs_def)
  have rx': "rx (loop P c s) = rx (loop P c' s')"
    using buf by (simp add: loop_fields)
  have "set (tl (rx s @ arriving c)) \<subseteq> set (rx s @ arriving c)"
    by (cases "rx s @ arriving c") auto
  with Cons.prems(2) have "0x35 \<notin> set (rx (loop P c s) @ concat (map arriving cs))"
    by (auto simp: loop_fields)
  from Cons.IH [OF rx' this] step show ?case by simp
qed


lemma rx_setup_sketch: "rx (setup_sketch rc s) = rx s"
  by (simp add: setup_sketch_def Let_def)

lemma rx_run_same_inputs:
  "list_all2 same_inputs cs cs' \<Longrightarrow> rx s = rx s' \<Longrightarrow> rx (run P cs s) = rx (run P cs' s')"
proof (induction cs cs' arbitrary: s s' rule: list_all2_induct)
  case Nil
  then show ?case by simp
next
  case (Cons c cs c' cs')
  then have "rx (loop P c s) = rx (loop P c' s')"
    by (simp add: loop_fields same_inputs_def)
  from Cons.IH [OF this] show ?case by simp
qed

subsection \<open>The conversion at sample 0 and at mid-scale\<close>

lemma convert_sample_0: "convert 0 = Fin (- 273.15)"
  by (simp add: convert_def Vout_of_def R1_of_def B_of_def T_of_def fsub_def signed_inf_def)

lemma Vout_of_512: "Vout_of 512 = Fin 2.5"
  by (simp add: Vout_of_def)

lemma R1_of_512: "R1_of (Vout_of 512) = Fin 4.7"
  by (simp add: Vout_of_def R1_of_def fsub_def)

subsection \<open>The conversion on the range of a working sensor\<close>

text \<open>
  For the samples 1 to 1023 the resistance is positive and the argument of the logarithm
  exceeds 1, so that no infinity and no NaN arises and the temperature is a finite number.
\<close>

lemma exp_1_ge: "(5 / 2 :: real) \<le> exp 1"
  using exp_lower_Taylor_quadratic [of "1 :: real"] by simp

lemma exp_3_ge: "(10 :: real) \<le> exp 3"
proof -
  have "(5 / 2 :: real) ^ 3 \<le> exp 1 ^ 3"
    using exp_1_ge by (intro power_mono) simp_all
  also have "exp (1 :: real) ^ 3 = exp 3"
    using exp_of_nat_mult [of 3 "1 :: real"] by simp
  finally show ?thesis by (simp add: power3_eq_cube)
qed

lemma exp_11_ge: "(2300 :: real) \<le> exp 11"
proof -
  have "(5 / 2 :: real) ^ 11 \<le> exp 1 ^ 11"
    using exp_1_ge by (intro power_mono) simp_all
  also have "exp (1 :: real) ^ 11 = exp 11"
    using exp_of_nat_mult [of 11 "1 :: real"] by simp
  finally have "(5 / 2 :: real) ^ 11 \<le> exp 11" .
  moreover have "(2300 :: real) \<le> (5 / 2) ^ 11"
    by (simp add: power_divide)
  ultimately show ?thesis by linarith
qed

lemma resistance_in_range:
  assumes "0 < r" "r < 1024"
  shows "47 / 10230 \<le> 23.5 / (real_of_int r * 5 / 1024) - (4.7 :: real)"
proof -
  have r: "0 < real_of_int r" "real_of_int r \<le> 1023" using assms by simp_all
  have "23.5 / (real_of_int r * 5 / 1024) - (4.7 :: real) = 4.7 * (1024 - real_of_int r) / real_of_int r"
    using r by (simp add: field_simps)
  moreover have "47 / 10230 \<le> 4.7 * (1024 - real_of_int r) / real_of_int r"
    using r by (simp add: field_simps)
  ultimately show ?thesis by simp
qed

lemma log_argument_gt_1:
  assumes R: "47 / 10230 \<le> R"
  shows "1 < R * exp (3452.9 * R powr (- 0.012329) / 298.15) / (10 :: real)"
proof (cases "10 \<le> R")
  case True
  have "1 < exp (3452.9 * R powr (- 0.012329) / 298.15)"
    using True by simp
  with True have "10 * 1 < R * exp (3452.9 * R powr (- 0.012329) / 298.15)"
    by (intro mult_le_less_imp_less) simp_all
  then show ?thesis by simp
next
  case False
  have Rpos: "0 < R" using R by simp
  have "ln (10 :: real) \<le> 3"
    using exp_3_ge ln_le_cancel_iff [of 10 "exp (3 :: real)"] by simp
  have "(0.96 :: real) \<le> 1 + (- 0.012329 * 3)" by simp
  also have "\<dots> \<le> exp (- 0.012329 * 3)"
    by (rule exp_ge_add_one_self)
  also have "\<dots> \<le> exp (- 0.012329 * ln (10 :: real))"
    using \<open>ln (10 :: real) \<le> 3\<close> by simp
  also have "\<dots> = (10 :: real) powr (- 0.012329)"
    by (simp add: powr_def)
  also have "\<dots> \<le> R powr (- 0.012329)"
    using False Rpos by (intro powr_mono2') simp_all
  finally have p: "0.96 \<le> R powr (- 0.012329)" .
  have "11 \<le> 3452.9 * R powr (- 0.012329) / 298.15"
    using p by (simp add: field_simps)
  then have "exp 11 \<le> exp (3452.9 * R powr (- 0.012329) / 298.15)" by simp
  then have e: "2300 \<le> exp (3452.9 * R powr (- 0.012329) / 298.15)"
    by (rule order_trans [OF exp_11_ge])
  have "(47 / 10230) * 2300 \<le> R * exp (3452.9 * R powr (- 0.012329) / 298.15)"
    using R e by (intro mult_mono) simp_all
  then show ?thesis by simp
qed

lemma convert_finite:
  assumes "0 < r" "r < 1024"
  shows "\<exists>t. convert r = Fin t"
proof -
  define R :: real where "R = 23.5 / (real_of_int r * 5 / 1024) - 4.7"
  define b :: real where "b = 3452.9 * R powr (- 0.012329)"
  have R: "47 / 10230 \<le> R"
    unfolding R_def using assms by (rule resistance_in_range)
  then have Rpos: "0 < R" by simp
  have x: "1 < R * exp (b / 298.15) / 10"
    unfolding b_def using R by (rule log_argument_gt_1)
  then have l: "0 < ln (R * exp (b / 298.15) / 10)" by simp
  have v: "Vout_of r = Fin (real_of_int r * 5 / 1024)"
    by (simp add: Vout_of_def)
  have r1: "R1_of (Vout_of r) = Fin R"
    using assms by (simp add: v R1_of_def R_def fsub_def)
  have bb: "B_of (Fin R) = Fin b"
    using Rpos by (simp add: B_of_def b_def)
  have "T_of (Fin R) (Fin b) = Fin (b / ln (R * exp (b / 298.15) / 10) - 273.15)"
    using x l Rpos by (simp add: T_of_def fsub_def)
  then show ?thesis
    by (simp add: convert_def r1 bb)
qed

subsection \<open>The claims\<close>

text \<open>
  C1. For every ADC sample, the temperature that the program computes is the value of the
  four-step formula of the specification for the channel with supply voltage 5.0, series
  resistance 4.7, B coefficient 3452.9, reference temperature 298.15 and divisor 10. This
  holds for both channels of the command sketch and for the continuous sketch with a
  thermistor; the source writes the reference temperature as \<open>25 + 273.15\<close>.
\<close>

theorem thermistor_equals_spec_formula:
  "T (loop P c s) = spec_convert (adc0 c) channel_4k7 \<and>
   T_2 (loop P c s) = spec_convert (adc1 c) channel_4k7 \<and>
   T (loop_part_001 P c t) = spec_convert (adc0 c) channel_4k7"
proof -
  have "T (loop_part_001 P c t) = convert (adc0 c)"
    by (simp add: loop_part_001_def Let_def convert_def)
  then show ?thesis
    by (simp add: loop_fields convert_def T_of_spec_convert)
qed

text \<open>
  C2. In the command sketch, a pass whose byte is \<open>'1'\<close> (0x31) writes exactly one line, the
  rendering of the temperature converted from the sample of channel 1 in that pass; a pass
  whose byte is \<open>'5'\<close> (0x35) writes exactly one line, the accelerometer sample as it stands
  after the poll of that pass, as three renderings separated by commas.
\<close>

theorem command_routing:
  "(read_data (acquire c s) = 0x31 \<longrightarrow>
      filter is_output (cycle_events P c s) = [Serial_println (String_double P (convert (adc0 c)))]) \<and>
   (read_data (acquire c s) = 0x35 \<longrightarrow>
      filter is_output (cycle_events P c s) =
        [Serial_println (csv_text P (accelerometer_value (loop P c s)))])"
  by (simp add: cycle_events_eq loop_fields)

theorem command_routing_witness:
  "\<forall>P.
     read_data (acquire (idle_cycle\<lparr>arriving := [0x31]\<rparr>) (power_on [])) = 0x31 \<and>
     filter is_output (cycle_events P (idle_cycle\<lparr>arriving := [0x31]\<rparr>) (power_on [])) =
       [Serial_println (String_double P (convert 512))] \<and>
     read_data (acquire idle_cycle (power_on [0x35])) = 0x35 \<and>
     filter is_output (cycle_events P idle_cycle (power_on [0x35])) =
       [Serial_println (String_float P (Fin 1) @ '','' @ String_float P (Fin 2) @ '','' @
          String_float P (Fin 3))]"
proof
  fix P
  have r1: "read_data (acquire (idle_cycle\<lparr>arriving := [0x31]\<rparr>) (power_on [])) = 0x31"
    by (simp add: read_data_pending power_on_def idle_cycle_def)
  have r5: "read_data (acquire idle_cycle (power_on [0x35])) = 0x35"
    by (simp add: read_data_pending power_on_def idle_cycle_def)
  have v: "accelerometer_value (loop P idle_cycle (power_on [0x35])) = (Fin 1, Fin 2, Fin 3)"
    by (simp add: loop_fields get_val_def idle_cycle_def)
  show "read_data (acquire (idle_cycle\<lparr>arriving := [0x31]\<rparr>) (power_on [])) = 0x31 \<and>
     filter is_output (cycle_events P (idle_cycle\<lparr>arriving := [0x31]\<rparr>) (power_on [])) =
       [Serial_println (String_double P (convert 512))] \<and>
     read_data (acquire idle_cycle (power_on [0x35])) = 0x35 \<and>
     filter is_output (cycle_events P idle_cycle (power_on [0x35])) =
       [Serial_println (String_float P (Fin 1) @ '','' @ String_float P (Fin 2) @ '','' @
          String_float P (Fin 3))]"
    using r1 r5 v
      command_routing [of "idle_cycle\<lparr>arriving := [0x31]\<rparr>" "power_on []" P]
      command_routing [of idle_cycle "power_on [0x35]" P]
    by (simp add: idle_cycle_def csv_text_def)
qed

text \<open>
  C3, as stated: for every byte other than \<open>'1'\<close>, \<open>'2'\<close> and \<open>'5'\<close>, dispatching the byte
  writes no line and mutates no program state. The second half fails on the pass of lines 41
  to 83: with the byte \<open>'A'\<close> (0x41) pending, the pass writes no line, but it stores the byte
  in \<open>read_data\<close>, overwrites the stored accelerometer sample and the thermistor globals, and
  so ends in another state than it began in.
\<close>

theorem unrecognised_pass_mutates_state:
  "\<forall>P.
     (0x41 :: byte) \<notin> {0x31, 0x32, 0x35} \<and>
     read_data (loop P idle_cycle (power_on [0x41])) = 0x41 \<and>
     filter is_output (cycle_events P idle_cycle (power_on [0x41])) = [] \<and>
     loop P idle_cycle (power_on [0x41]) \<noteq> power_on [0x41] \<and>
     read_data (power_on [0x41]) = 0 \<and>
     accelerometer_value (power_on [0x41]) = (Fin 0, Fin 0, Fin 0) \<and>
     accelerometer_value (loop P idle_cycle (power_on [0x41])) = (Fin 1, Fin 2, Fin 3) \<and>
     Vout (power_on [0x41]) = Fin 0 \<and>
     Vout (loop P idle_cycle (power_on [0x41])) = Fin 2.5 \<and>
     R1 (loop P idle_cycle (power_on [0x41])) = Fin 4.7"
proof
  fix P
  let ?s = "power_on [0x41]"
  have r: "read_data (acquire idle_cycle ?s) = 0x41"
    by (simp add: read_data_pending power_on_def idle_cycle_def)
  then have l: "loop P idle_cycle ?s = acquire idle_cycle ?s"
    by (simp add: loop_def dispatch_def)
  have v: "Vout (acquire idle_cycle ?s) = Fin 2.5" "R1 (acquire idle_cycle ?s) = Fin 4.7"
    by (simp_all add: acquire_def Let_def idle_cycle_def Vout_of_def R1_of_def fsub_def)
  have a: "accelerometer_value (acquire idle_cycle ?s) = (Fin 1, Fin 2, Fin 3)"
    by (simp add: accel_acquire get_val_def idle_cycle_def)
  have p: "read_data ?s = 0" "accelerometer_value ?s = (Fin 0, Fin 0, Fin 0)" "Vout ?s = Fin 0"
    by (simp_all add: power_on_def)
  have ne: "acquire idle_cycle ?s \<noteq> ?s"
  proof
    assume "acquire idle_cycle ?s = ?s"
    then have "read_data (acquire idle_cycle ?s) = read_data ?s" by simp
    with r p(1) show False by simp
  qed
  have o: "filter is_output (cycle_events P idle_cycle ?s) = []"
    using r by (simp add: cycle_events_eq)
  show "(0x41 :: byte) \<notin> {0x31, 0x32, 0x35} \<and>
     read_data (loop P idle_cycle ?s) = 0x41 \<and>
     filter is_output (cycle_events P idle_cycle ?s) = [] \<and>
     loop P idle_cycle ?s \<noteq> ?s \<and>
     read_data ?s = 0 \<and>
     accelerometer_value ?s = (Fin 0, Fin 0, Fin 0) \<and>
     accelerometer_value (loop P idle_cycle ?s) = (Fin 1, Fin 2, Fin 3) \<and>
     Vout ?s = Fin 0 \<and>
     Vout (loop P idle_cycle ?s) = Fin 2.5 \<and>
     R1 (loop P idle_cycle ?s) = Fin 4.7"
    using r v a p ne o by (simp add: l)
qed

text \<open>
  C3, amended. For every byte other than \<open>'1'\<close>, \<open>'2'\<close> and \<open>'5'\<close>, among them the 0xFF that
  the no-data value -1 becomes in \<open>read_data\<close>, the pass writes no line and leaves \<open>send_data\<close>
  as it was; the comparison chain of lines 64 to 82 changes nothing, and the state after the
  pass is the state before it with exactly what the acquisition of every pass writes: the
  byte in \<open>read_data\<close>, the receive buffer without its oldest byte, the accelerometer sample
  when the poll succeeded, the four thermistor globals of each channel, and the four
  transactions in the trace.
\<close>

theorem unrecognised_byte_no_output:
  assumes "b \<notin> {0x31, 0x32, 0x35}"
  shows "(read_data s = b \<longrightarrow> dispatch P s = s) \<and>
         (read_data (acquire c s0) = b \<longrightarrow>
            filter is_output (cycle_events P c s0) = [] \<and>
            send_data (loop P c s0) = send_data s0 \<and>
            loop P c s0 =
              s0\<lparr>read_data := b,
                 rx := tl (rx s0 @ arriving c),
                 accelerometer_value :=
                   (if kx_rc c = 0 then kx_sample c else accelerometer_value s0),
                 Vout := Vout_of (adc0 c), R1 := R1_of (Vout_of (adc0 c)),
                 B := B_of (R1_of (Vout_of (adc0 c))), T := convert (adc0 c),
                 Vout_2 := Vout_of (adc1 c), R1_2 := R1_of (Vout_of (adc1 c)),
                 B_2 := B_of (R1_of (Vout_of (adc1 c))), T_2 := convert (adc1 c),
                 trace := trace s0 @ [Serial_read, Kx_get_val, Analog_read 0, Analog_read 1]\<rparr>)"
proof -
  have d: "dispatch P s = s" if "read_data s = b" for s
    using that assms by (auto simp: dispatch_def)
  have "loop P c s0 = acquire c s0" if "read_data (acquire c s0) = b"
    using d [OF that] by (simp add: loop_def)
  then show ?thesis
    using assms d acquire_state [of c s0]
    by (auto simp: cycle_events_eq send_data_acquire)
qed

theorem unrecognised_byte_no_output_witness:
  "\<forall>P. (0xFF :: byte) \<notin> {0x31, 0x32, 0x35} \<and>
     read_data (acquire idle_cycle (power_on [])) = 0xFF \<and>
     dispatch P (acquire idle_cycle (power_on [])) = acquire idle_cycle (power_on []) \<and>
     filter is_output (cycle_events P idle_cycle (power_on [])) = [] \<and>
     send_data (loop P idle_cycle (power_on [])) = [] \<and>
     loop P idle_cycle (power_on []) =
       (power_on [])\<lparr>read_data := 0xFF, rx := [],
          accelerometer_value := (Fin 1, Fin 2, Fin 3),
          Vout := Vout_of 512, R1 := R1_of (Vout_of 512),
          B := B_of (R1_of (Vout_of 512)), T := convert 512,
          Vout_2 := Vout_of 512, R1_2 := R1_of (Vout_of 512),
          B_2 := B_of (R1_of (Vout_of 512)), T_2 := convert 512,
          trace := [Serial_read, Kx_get_val, Analog_read 0, Analog_read 1]\<rparr>"
proof
  fix P
  have b: "(0xFF :: byte) \<notin> {0x31, 0x32, 0x35}" by simp
  have r: "read_data (acquire idle_cycle (power_on [])) = 0xFF"
    by (simp add: read_data_no_data power_on_def idle_cycle_def)
  have p: "send_data (power_on []) = []" "rx (power_on []) = []" "trace (power_on []) = []"
    by (simp_all add: power_on_def)
  have c: "arriving idle_cycle = []" "kx_rc idle_cycle = 0"
    "kx_sample idle_cycle = (Fin 1, Fin 2, Fin 3)" "adc0 idle_cycle = 512" "adc1 idle_cycle = 512"
    by (simp_all add: idle_cycle_def)
  show "(0xFF :: byte) \<notin> {0x31, 0x32, 0x35} \<and>
     read_data (acquire idle_cycle (power_on [])) = 0xFF \<and>
     dispatch P (acquire idle_cycle (power_on [])) = acquire idle_cycle (power_on []) \<and>
     filter is_output (cycle_events P idle_cycle (power_on [])) = [] \<and>
     send_data (loop P idle_cycle (power_on [])) = [] \<and>
     loop P idle_cycle (power_on []) =
       (power_on [])\<lparr>read_data := 0xFF, rx := [],
          accelerometer_value := (Fin 1, Fin 2, Fin 3),
          Vout := Vout_of 512, R1 := R1_of (Vout_of 512),
          B := B_of (R1_of (Vout_of 512)), T := convert 512,
          Vout_2 := Vout_of 512, R1_2 := R1_of (Vout_of 512),
          B_2 := B_of (R1_of (Vout_of 512)), T_2 := convert 512,
          trace := [Serial_read, Kx_get_val, Analog_read 0, Analog_read 1]\<rparr>"
    using b r
      unrecognised_byte_no_output [OF b, of "acquire idle_cycle (power_on [])" P idle_cycle
        "power_on []"]
    by (simp add: p c)
qed

text \<open>
  C4. After a successful poll, any number of failed polls leave the stored sample as that
  poll wrote it: a command \<open>'5'\<close> in a pass whose own poll fails reports exactly the sample of
  the last successful poll, and the stored sample is never reset.
\<close>

theorem stale_read:
  assumes "kx_rc c0 = 0" and "\<forall>c\<in>set cs. kx_rc c \<noteq> 0" and "kx_rc c \<noteq> 0"
    and "read_data (acquire c (run P (c0 # cs) s)) = 0x35"
  shows "accelerometer_value (run P (c0 # cs) s) = kx_sample c0 \<and>
         accelerometer_value (loop P c (run P (c0 # cs) s)) = kx_sample c0 \<and>
         filter is_output (cycle_events P c (run P (c0 # cs) s)) =
           [Serial_println (csv_text P (kx_sample c0))]"
proof -
  have "accelerometer_value (loop P c0 s) = kx_sample c0"
    using assms(1) by (simp add: loop_fields get_val_def)
  with assms(2) have kept: "accelerometer_value (run P (c0 # cs) s) = kx_sample c0"
    by (simp add: accel_failed_polls)
  with assms(3,4) show ?thesis
    by (simp add: loop_fields cycle_events_eq get_val_def)
qed

theorem stale_read_witness:
  "\<forall>P. kx_rc idle_cycle = 0 \<and> kx_rc failed_cycle \<noteq> 0 \<and>
     read_data (acquire (failed_cycle\<lparr>arriving := [0x35]\<rparr>)
        (run P [idle_cycle, failed_cycle] (power_on []))) = 0x35 \<and>
     accelerometer_value (loop P (failed_cycle\<lparr>arriving := [0x35]\<rparr>)
        (run P [idle_cycle, failed_cycle] (power_on []))) = (Fin 1, Fin 2, Fin 3) \<and>
     filter is_output (cycle_events P (failed_cycle\<lparr>arriving := [0x35]\<rparr>)
        (run P [idle_cycle, failed_cycle] (power_on []))) =
       [Serial_println (csv_text P (Fin 1, Fin 2, Fin 3))]"
proof
  fix P
  let ?c = "failed_cycle\<lparr>arriving := [0x35]\<rparr>"
  let ?s = "run P [idle_cycle, failed_cycle] (power_on [])"
  have ok: "kx_rc idle_cycle = 0" by (simp add: idle_cycle_def)
  have fl: "\<forall>c\<in>set [failed_cycle]. kx_rc c \<noteq> 0" by (simp add: failed_cycle_def)
  have fc: "kx_rc ?c \<noteq> 0" by (simp add: failed_cycle_def)
  have "rx ?s = []"
    by (simp add: loop_fields power_on_def idle_cycle_def failed_cycle_def)
  then have rd: "read_data (acquire ?c ?s) = 0x35"
    by (simp add: read_data_pending)
  show "kx_rc idle_cycle = 0 \<and> kx_rc failed_cycle \<noteq> 0 \<and>
     read_data (acquire ?c ?s) = 0x35 \<and>
     accelerometer_value (loop P ?c ?s) = (Fin 1, Fin 2, Fin 3) \<and>
     filter is_output (cycle_events P ?c ?s) =
       [Serial_println (csv_text P (Fin 1, Fin 2, Fin 3))]"
    using ok fc rd stale_read [OF ok fl fc rd]
    by (simp add: idle_cycle_def)
qed

text \<open>
  C5. When the initialisation of the accelerometer fails, \<open>setup\<close> prints its diagnostic line
  and returns, every pass of \<open>loop\<close> that follows is carried out, however many there are, and
  in any pass that reads \<open>'1'\<close> or \<open>'2'\<close> the line written is the one written in the same pass
  of a run whose initialisation succeeded and that sees the same bytes and ADC samples,
  whatever the accelerometer does in either run.
\<close>

theorem degraded_mode:
  assumes "rc \<noteq> 0" and "list_all2 same_inputs cs cs'" and "k < length cs"
    and "read_data (acquire (cs ! k) (run P (take k cs) (setup_sketch rc s))) \<in> {0x31, 0x32}"
  shows "trace (setup_sketch rc s) = trace s @ [Kx_init, Serial_println init_failed_message] \<and>
         passes (run P cs (setup_sketch rc s)) = passes s + length cs \<and>
         filter is_output (cycle_events P (cs ! k) (run P (take k cs) (setup_sketch rc s))) =
         filter is_output (cycle_events P (cs' ! k) (run P (take k cs') (setup_sketch 0 s)))"
proof -
  let ?s = "run P (take k cs) (setup_sketch rc s)"
  let ?s' = "run P (take k cs') (setup_sketch 0 s)"
  have tr: "trace (setup_sketch rc s) = trace s @ [Kx_init, Serial_println init_failed_message]"
    using assms(1) by (simp add: setup_sketch_def Let_def)
  then have "passes (setup_sketch rc s) = passes s"
    by (simp add: passes_def)
  then have ps: "passes (run P cs (setup_sketch rc s)) = passes s + length cs"
    by (simp add: passes_run)
  have "list_all2 same_inputs (take k cs) (take k cs')"
    using assms(2) by (rule list_all2_takeI)
  then have "rx ?s = rx ?s'"
    by (rule rx_run_same_inputs) (simp add: rx_setup_sketch)
  moreover have same: "same_inputs (cs ! k) (cs' ! k)"
    using assms(2,3) by (rule list_all2_nthD)
  ultimately have "read_data (acquire (cs' ! k) ?s') = read_data (acquire (cs ! k) ?s)"
    by (simp add: read_data_acquire same_inputs_def)
  with assms(4) same
  have "filter is_output (cycle_events P (cs ! k) ?s) =
        filter is_output (cycle_events P (cs' ! k) ?s')"
    by (auto simp: cycle_events_eq same_inputs_def)
  with tr ps show ?thesis by simp
qed

theorem degraded_mode_witness:
  "\<forall>P. (2 :: byte) \<noteq> 0 \<and>
     list_all2 same_inputs [failed_cycle, failed_cycle\<lparr>arriving := [0x32]\<rparr>]
                           [idle_cycle, idle_cycle\<lparr>arriving := [0x32]\<rparr>] \<and>
     (1 :: nat) < length [failed_cycle, failed_cycle\<lparr>arriving := [0x32]\<rparr>] \<and>
     read_data (acquire ([failed_cycle, failed_cycle\<lparr>arriving := [0x32]\<rparr>] ! 1)
        (run P (take 1 [failed_cycle, failed_cycle\<lparr>arriving := [0x32]\<rparr>])
           (setup_sketch 2 (power_on [0x35])))) \<in> {0x31, 0x32} \<and>
     trace (setup_sketch 2 (power_on [0x35])) =
       [Kx_init, Serial_println init_failed_message] \<and>
     passes (run P [failed_cycle, failed_cycle\<lparr>arriving := [0x32]\<rparr>]
        (setup_sketch 2 (power_on [0x35]))) = 2 \<and>
     filter is_output (cycle_events P (failed_cycle\<lparr>arriving := [0x32]\<rparr>)
        (run P [failed_cycle] (setup_sketch 2 (power_on [0x35])))) =
     filter is_output (cycle_events P (idle_cycle\<lparr>arriving := [0x32]\<rparr>)
        (run P [idle_cycle] (setup_sketch 0 (power_on [0x35]))))"
proof
  fix P
  let ?cs = "[failed_cycle, failed_cycle\<lparr>arriving := [0x32]\<rparr>]"
  let ?cs' = "[idle_cycle, idle_cycle\<lparr>arriving := [0x32]\<rparr>]"
  let ?s = "power_on [0x35]"
  have h1: "(2 :: byte) \<noteq> 0" by simp
  have h2: "list_all2 same_inputs ?cs ?cs'"
    by (simp add: same_inputs_def failed_cycle_def idle_cycle_def)
  have h3: "(1 :: nat) < length ?cs" by simp
  have "rx (run P (take 1 ?cs) (setup_sketch 2 ?s)) = []"
    by (simp add: loop_fields rx_setup_sketch power_on_def failed_cycle_def)
  then have h4: "read_data (acquire (?cs ! 1) (run P (take 1 ?cs) (setup_sketch 2 ?s)))
      \<in> {0x31, 0x32}"
    by (simp add: read_data_pending)
  have p0: "passes ?s = 0" "trace ?s = []"
    by (simp_all add: passes_def power_on_def)
  show "(2 :: byte) \<noteq> 0 \<and> list_all2 same_inputs ?cs ?cs' \<and> (1 :: nat) < length ?cs \<and>
     read_data (acquire (?cs ! 1) (run P (take 1 ?cs) (setup_sketch 2 ?s))) \<in> {0x31, 0x32} \<and>
     trace (setup_sketch 2 ?s) = [Kx_init, Serial_println init_failed_message] \<and>
     passes (run P ?cs (setup_sketch 2 ?s)) = 2 \<and>
     filter is_output (cycle_events P (failed_cycle\<lparr>arriving := [0x32]\<rparr>)
        (run P [failed_cycle] (setup_sketch 2 ?s))) =
     filter is_output (cycle_events P (idle_cycle\<lparr>arriving := [0x32]\<rparr>)
        (run P [idle_cycle] (setup_sketch 0 ?s)))"
    using h1 h2 h3 h4 p0 degraded_mode [OF h1 h2 h3 h4]
    by simp
qed

text \<open>
  C6. Every report is one line ended by the line terminator. The continuous sketch with a
  thermistor does not do this: its pass writes the JSON text with \<open>Serial.print\<close>, so the
  bytes on the wire end with the closing brace and no line is written, while the sketch
  without a thermistor writes the same text with \<open>Serial.println\<close>.
\<close>

theorem part_001_report_not_terminated:
  "drop (length (trace s)) (trace (loop_part_001 P c s)) =
     [Kx_get_val, Analog_read 0,
      Serial_print (json_text P (snd (get_val c (accelerometer_value s))))] \<and>
   filter is_line (drop (length (trace s)) (trace (loop_part_001 P c s))) = [] \<and>
   wire_bytes (drop (length (trace s)) (trace (loop_part_001 P c s))) =
     json_text P (snd (get_val c (accelerometer_value s))) \<and>
   last (wire_bytes (drop (length (trace s)) (trace (loop_part_001 P c s)))) = CHR ''}''"
  by (simp add: loop_part_001_def Let_def json_text_def wire_bytes_def split: prod.split)

lemma part_000_report_terminated:
  "drop (length (trace s)) (trace (loop_part_000 P c s)) =
     [Kx_get_val, Serial_println (json_text P (snd (get_val c (accelerometer_value s))))] \<and>
   wire_bytes (drop (length (trace s)) (trace (loop_part_000 P c s))) =
     json_text P (snd (get_val c (accelerometer_value s))) @ line_terminator"
  by (simp add: loop_part_000_def Let_def wire_bytes_def)

lemma part_001_reports_run_together:
  "wire_bytes (drop (length (trace s))
      (trace (loop_part_001 P c2 (loop_part_001 P c1 s)))) =
   json_text P (snd (get_val c1 (accelerometer_value s))) @
   json_text P (snd (get_val c2 (snd (get_val c1 (accelerometer_value s)))))"
  by (simp add: loop_part_001_def Let_def wire_bytes_def)



text \<open>
  C9. Every pass of the command sketch reads the port once, takes at most one byte out of the
  receive buffer and writes at most one line; the bytes pending at some moment are read one
  in each of the following passes, in their order, whatever arrives meanwhile.
\<close>

theorem one_byte_one_line:
  "rx (loop P c s) = tl (rx s @ arriving c) \<and>
   length (filter (\<lambda>e. e = Serial_read) (cycle_events P c s)) = 1 \<and>
   length (filter is_output (cycle_events P c s)) \<le> 1 \<and>
   (k < length cs \<and> k < length (rx s) \<longrightarrow>
      read_data (run P (take (Suc k) cs) s) = rx s ! k)"
proof -
  have "read_data (run P (take (Suc k) cs) s) = rx s ! k"
    if k: "k < length cs" "k < length (rx s)"
  proof -
    let ?s = "run P (take k cs) s"
    have "rx ?s = drop k (rx s) @ concat (map arriving (take k cs))"
      using k rx_run [of "take k cs" s P] by simp
    moreover have "drop k (rx s) = rx s ! k # drop (Suc k) (rx s)"
      using k(2) by (simp add: Cons_nth_drop_Suc)
    ultimately have "read_data (acquire (cs ! k) ?s) = rx s ! k"
      by (simp add: read_data_pending)
    moreover have "take (Suc k) cs = take k cs @ [cs ! k]"
      using k(1) by (simp add: take_Suc_conv_app_nth)
    ultimately show ?thesis
      by (simp add: run_append loop_fields)
  qed
  then show ?thesis
    by (simp add: loop_fields cycle_events_eq)
qed

theorem one_byte_one_line_witness:
  "\<forall>P. (1 :: nat) < length [idle_cycle, idle_cycle, idle_cycle] \<and>
     1 < length (rx (power_on [0x31, 0x35, 0x32])) \<and>
     read_data (run P (take (Suc 1) [idle_cycle, idle_cycle, idle_cycle])
        (power_on [0x31, 0x35, 0x32])) = 0x35 \<and>
     rx (loop P idle_cycle (power_on [0x31, 0x35, 0x32])) = [0x35, 0x32]"
proof
  fix P
  have r: "rx (power_on [0x31, 0x35, 0x32]) = [0x31, 0x35, 0x32]"
    by (simp add: power_on_def)
  have a: "arriving idle_cycle = []" by (simp add: idle_cycle_def)
  show "(1 :: nat) < length [idle_cycle, idle_cycle, idle_cycle] \<and>
     1 < length (rx (power_on [0x31, 0x35, 0x32])) \<and>
     read_data (run P (take (Suc 1) [idle_cycle, idle_cycle, idle_cycle])
        (power_on [0x31, 0x35, 0x32])) = 0x35 \<and>
     rx (loop P idle_cycle (power_on [0x31, 0x35, 0x32])) = [0x35, 0x32]"
    using one_byte_one_line [of P idle_cycle "power_on [0x31, 0x35, 0x32]" 1
        "[idle_cycle, idle_cycle, idle_cycle]"]
    by (simp add: r a)
qed

text \<open>
  C10. The line written in answer to \<open>'1'\<close> depends on the sample of channel 1 only: two passes
  that read the same byte \<open>'1'\<close> and the same sample on pin 0 write the same line, whatever the
  samples on pin 1, the accelerometer and the earlier history are; and likewise for \<open>'2'\<close> and
  pin 1.
\<close>

theorem channel_noninterference:
  assumes "rx s' @ arriving c' = rx s @ arriving c"
  shows "(read_data (acquire c s) = 0x31 \<and> adc0 c' = adc0 c \<longrightarrow>
            filter is_output (cycle_events P c' s') = filter is_output (cycle_events P c s)) \<and>
         (read_data (acquire c s) = 0x32 \<and> adc1 c' = adc1 c \<longrightarrow>
            filter is_output (cycle_events P c' s') = filter is_output (cycle_events P c s))"
proof -
  have "read_data (acquire c' s') = read_data (acquire c s)"
    using assms by (simp add: read_data_acquire)
  then show ?thesis
    by (simp add: cycle_events_eq)
qed

theorem channel_noninterference_witness:
  "\<forall>P.
     rx (power_on [0x31]) @ arriving (idle_cycle\<lparr>adc1 := 100\<rparr>) =
       rx (power_on [0x31]) @ arriving idle_cycle \<and>
     read_data (acquire idle_cycle (power_on [0x31])) = 0x31 \<and>
     adc0 (idle_cycle\<lparr>adc1 := 100\<rparr>) = adc0 idle_cycle \<and>
     adc1 (idle_cycle\<lparr>adc1 := 100\<rparr>) \<noteq> adc1 idle_cycle \<and>
     filter is_output (cycle_events P (idle_cycle\<lparr>adc1 := 100\<rparr>) (power_on [0x31])) =
       filter is_output (cycle_events P idle_cycle (power_on [0x31])) \<and>
     rx (power_on [0x32]) @ arriving (idle_cycle\<lparr>adc0 := 100\<rparr>) =
       rx (power_on [0x32]) @ arriving idle_cycle \<and>
     read_data (acquire idle_cycle (power_on [0x32])) = 0x32 \<and>
     adc1 (idle_cycle\<lparr>adc0 := 100\<rparr>) = adc1 idle_cycle \<and>
     filter is_output (cycle_events P (idle_cycle\<lparr>adc0 := 100\<rparr>) (power_on [0x32])) =
       filter is_output (cycle_events P idle_cycle (power_on [0x32]))"
proof
  fix P
  have e1: "rx (power_on [0x31]) @ arriving (idle_cycle\<lparr>adc1 := 100\<rparr>) =
       rx (power_on [0x31]) @ arriving idle_cycle" by simp
  have e2: "rx (power_on [0x32]) @ arriving (idle_cycle\<lparr>adc0 := 100\<rparr>) =
       rx (power_on [0x32]) @ arriving idle_cycle" by simp
  have r1: "read_data (acquire idle_cycle (power_on [0x31])) = 0x31"
    by (simp add: read_data_pending power_on_def idle_cycle_def)
  have r2: "read_data (acquire idle_cycle (power_on [0x32])) = 0x32"
    by (simp add: read_data_pending power_on_def idle_cycle_def)
  have d: "adc1 (idle_cycle\<lparr>adc1 := 100\<rparr>) \<noteq> adc1 idle_cycle"
    by (simp add: idle_cycle_def)
  show "rx (power_on [0x31]) @ arriving (idle_cycle\<lparr>adc1 := 100\<rparr>) =
       rx (power_on [0x31]) @ arriving idle_cycle \<and>
     read_data (acquire idle_cycle (power_on [0x31])) = 0x31 \<and>
     adc0 (idle_cycle\<lparr>adc1 := 100\<rparr>) = adc0 idle_cycle \<and>
     adc1 (idle_cycle\<lparr>adc1 := 100\<rparr>) \<noteq> adc1 idle_cycle \<and>
     filter is_output (cycle_events P (idle_cycle\<lparr>adc1 := 100\<rparr>) (power_on [0x31])) =
       filter is_output (cycle_events P idle_cycle (power_on [0x31])) \<and>
     rx (power_on [0x32]) @ arriving (idle_cycle\<lparr>adc0 := 100\<rparr>) =
       rx (power_on [0x32]) @ arriving idle_cycle \<and>
     read_data (acquire idle_cycle (power_on [0x32])) = 0x32 \<and>
     adc1 (idle_cycle\<lparr>adc0 := 100\<rparr>) = adc1 idle_cycle \<and>
     filter is_output (cycle_events P (idle_cycle\<lparr>adc0 := 100\<rparr>) (power_on [0x32])) =
       filter is_output (cycle_events P idle_cycle (power_on [0x32]))"
    using r1 r2 d
      channel_noninterference [OF e1, of P]
      channel_noninterference [OF e2, of P]
    by simp
qed

end
